theory Spec2Isabelle
  imports Main "HOL-Library.Word"
begin

section \<open>Host-process bootstrap of xenia (src/xenia/base/main_win.cc)\<close>

text \<open>
  The file under verification is the Windows bootstrap of the emulator: it marshals the
  command line, optionally negotiates a console, initialises COM and logging, checks the
  CPU for AVX, asks the NT kernel for a fine timer and calls the application's entry
  point. Everything it does is a call into the operating system, the C runtime or
  another part of the program, so the embedding has three ingredients:

  \<^item> a record \<open>host\<close> of what the outside answers (the tokenised command line, the
    locale's wide-to-multibyte conversion, the environment, the CPU, ntdll's exports,
    the option parser, the generated build macros);
  \<^item> a record \<open>process\<close> of what the file itself owns: the global
    \<open>has_console_attached_\<close> (the field \<open>has_console_attached_var\<close>, since a name
    cannot end in an underscore here), the two configuration variables it defines, and
    the list of effectful calls made so far, oldest first;
  \<^item> a result type \<open>fault + 'a\<close>: \<open>Inl\<close> is a path on which the C++ does not
    return (an uncaught exception, or a read the language leaves undefined).
\<close>

subsection \<open>Machine types\<close>

type_synonym wchar_t = "16 word"  \<comment> \<open>Windows: a UTF-16 code unit\<close>
type_synonym cchar = "8 word"  \<comment> \<open>C's char\<close>
type_synonym size_t = "64 word"  \<comment> \<open>the emulator targets x64\<close>
type_synonym ULONG = "32 word"
type_synonym std_string = "cchar list"  \<comment> \<open>the bytes of a std::string\<close>

subsection \<open>Configuration variables (lines 30-33)\<close>

record cvars =
  win32_high_freq :: bool
  enable_console :: bool

text \<open>The defaults the two \<open>DEFINE_bool\<close> lines give.\<close>

definition DEFINE_bool_defaults :: cvars where
  "DEFINE_bool_defaults = \<lparr>win32_high_freq = True, enable_console = False\<rparr>"

subsection \<open>The entry descriptor (xe::EntryInfo, as main_win.cc reads it)\<close>

record EntryInfo =
  name :: string
  transparent_options :: bool
  positional_usage :: "string option"
  positional_options :: "string list option"
  entry_point :: "std_string list \<Rightarrow> int"

subsection \<open>What the outside answers\<close>

text \<open>
  A wide string \<open>wargv[n]\<close> is the list of its code units; its terminating \<open>L'\0'\<close> is
  the end of the list, and a zero inside the list ends the string early, as it would in
  memory. \<open>CommandLineToArgvW\<close> is \<open>None\<close> for a null array and otherwise the count it
  stores in \<open>wargc\<close> with the array. \<open>wctomb_locale\<close> is the current locale's multibyte
  encoding of one wide character, \<open>None\<close> where the locale has none.
  \<open>GetProcAddress_NtQueryTimerResolution\<close> is \<open>None\<close> for a null pointer and otherwise
  the three values the function stores (minimum, maximum, current).
  \<open>cvar_ParseLaunchArguments\<close> is the option parser of xenia/base/cvar.h, which is not
  part of this file. It is handed the locals \<open>argc\<close> and \<open>argv\<close> and the two positional
  descriptions; its declaration is not at hand, so it may take the two locals by
  reference and change them, and it may assign the configuration variables. Its value is
  \<open>argc\<close> and \<open>argv\<close> as they stand after the call, and the new configuration.
  The \<open>XE_\<close> fields are the macros of platform.h and of the generated build/version.h.
\<close>

record host =
  CommandLineToArgvW :: "(int \<times> wchar_t list list) option"
  wctomb_locale :: "wchar_t \<Rightarrow> cchar list option"
  AttachConsole_ATTACH_PARENT_PROCESS :: bool
  getenv :: "string \<Rightarrow> string option"
  cpu_has_tAVX :: bool
  GetProcAddress_NtQueryTimerResolution :: "(ULONG \<times> ULONG \<times> ULONG) option"
  GetProcAddress_NtSetTimerResolution :: bool
  cvar_ParseLaunchArguments ::
    "int \<Rightarrow> cchar list list \<Rightarrow> string \<Rightarrow> string list \<Rightarrow> cvars \<Rightarrow> int \<times> cchar list list \<times> cvars"
  XE_PLATFORM_WIN32 :: bool
  XE_BUILD_PR :: "(string \<times> string \<times> string \<times> string) option"
  XE_BUILD_BRANCH :: string
  XE_BUILD_COMMIT_SHORT :: string
  XE_BUILD_DATE :: string

subsection \<open>The process: globals and the calls made so far\<close>

text \<open>
  A \<open>call\<close> records that this file called a function with an effect outside it, with
  the arguments that matter. What the callee does inside is not part of this file:
  \<open>xe::InitializeLogging\<close>, \<open>xe::FatalError\<close>, \<open>xe::ShutdownLogging\<close> and the logging
  macro are taken to return to their caller, as the code after each call supposes, and
  the entry point is a function from the arguments to the integer it returns.
\<close>

datatype std_stream = stdout | stderr

datatype call =
    Call_LocalFree
  | Call_cvar_ParseLaunchArguments "std_string list" string "string list"
  | Call_AttachConsole_parent
  | Call_AllocConsole
  | Call_open_osfhandle_O_TEXT std_stream
  | Call_fdopen_w std_stream
  | Call_freopen_s_CONOUT_w std_stream
  | Call_CoInitializeEx
  | Call_InitializeLogging string
  | Call_FatalError string
  | Call_XELOGI string
  | Call_NtQueryTimerResolution
  | Call_NtSetTimerResolution ULONG bool
  | Call_entry_point "std_string list"
  | Call_ShutdownLogging

datatype fault =
    bad_optional_access  \<comment> \<open>\<open>std::optional::value()\<close> on an empty optional: thrown, never caught\<close>
  | read_outside_wargv  \<comment> \<open>\<open>wargv[n]\<close> beyond the array the OS returned\<close>
  | alloca_negative_count  \<comment> \<open>\<open>alloca(sizeof(char*) * argc)\<close> with a negative \<open>argc\<close>\<close>
  | read_unterminated_buffer  \<comment> \<open>\<open>std::string(argv[n])\<close> where \<open>argv[n]\<close> holds no null\<close>
  | read_outside_argv  \<comment> \<open>\<open>argv[n]\<close> beyond the array, after the option parser changed it\<close>

record process =
  has_console_attached_var :: bool
  cvars :: cvars
  calls :: "call list"

text \<open>Line 37 and the \<open>DEFINE_bool\<close>s: the globals when the process starts.\<close>

definition process_start :: process where
  "process_start = \<lparr>has_console_attached_var = True, cvars = DEFINE_bool_defaults, calls = []\<rparr>"

definition do_call :: "call \<Rightarrow> process \<Rightarrow> process" where
  "do_call c s = s\<lparr>calls := calls s @ [c]\<rparr>"

subsection \<open>Console attachment (lines 37-73)\<close>

definition has_console_attached :: "process \<Rightarrow> bool" where
  "has_console_attached s = has_console_attached_var s"

text \<open>
  \<open>getenv_s(&size, nullptr, 0, varname)\<close>: with a null buffer of size 0 the C runtime
  only stores the size the value needs, its terminator included, or 0 when the variable
  does not exist, and returns 0.
\<close>

definition getenv_s_size :: "host \<Rightarrow> string \<Rightarrow> int \<times> size_t" where
  "getenv_s_size h varname =
     (case getenv h varname of
        None \<Rightarrow> (0, 0)
      | Some v \<Rightarrow> (0, of_nat (length v + 1)))"

definition has_shell_environment_variable :: "host \<Rightarrow> bool" where
  "has_shell_environment_variable h =
     (let (error, size) = getenv_s_size h ''SHELL''
      in if error \<noteq> 0 then False else size \<noteq> 0)"

definition rebind :: "std_stream \<Rightarrow> process \<Rightarrow> process" where
  "rebind f s =
     do_call (Call_freopen_s_CONOUT_w f)
       (do_call (Call_fdopen_w f)
         (do_call (Call_open_osfhandle_O_TEXT f) s))"

definition AttachConsole :: "host \<Rightarrow> process \<Rightarrow> process" where
  "AttachConsole h s =
     (let s1 = do_call Call_AttachConsole_parent s;
          has_console = AttachConsole_ATTACH_PARENT_PROCESS h
      in if \<not> has_console \<or> \<not> has_shell_environment_variable h
         then s1\<lparr>has_console_attached_var := False\<rparr>
         else
           let s2 = do_call Call_AllocConsole s1;
               s3 = s2\<lparr>has_console_attached_var := True\<rparr>
           in rebind stderr (rebind stdout s3))"

subsection \<open>Timer resolution (lines 75-98)\<close>

definition RequestHighPerformance :: "host \<Rightarrow> process \<Rightarrow> process" where
  "RequestHighPerformance h s =
     (if \<not> XE_PLATFORM_WIN32 h then s
      else
        case GetProcAddress_NtQueryTimerResolution h of
          None \<Rightarrow> s
        | Some (minimum_resolution, maximum_resolution, current_resolution) \<Rightarrow>
            if \<not> GetProcAddress_NtSetTimerResolution h then s
            else
              do_call (Call_NtSetTimerResolution maximum_resolution True)
                (do_call Call_NtQueryTimerResolution s))"

subsection \<open>Wide to narrow conversion (the C library's wcstombs)\<close>

text \<open>
  \<open>wcstombs(nullptr, src, 0)\<close> returns the number of bytes the converted string takes,
  its terminating null not counted, or \<open>(size_t)-1\<close> when a wide character has no
  multibyte form. \<open>wcstombs_count\<close> is that number as a natural, \<open>None\<close> for the error.
\<close>

fun wcstombs_count :: "(wchar_t \<Rightarrow> cchar list option) \<Rightarrow> wchar_t list \<Rightarrow> nat option" where
  "wcstombs_count mb [] = Some 0"
| "wcstombs_count mb (c # cs) =
     (if c = 0 then Some 0
      else case mb c of
             None \<Rightarrow> None
           | Some bs \<Rightarrow> (case wcstombs_count mb cs of
                          None \<Rightarrow> None
                        | Some k \<Rightarrow> Some (length bs + k)))"

definition wcstombs_nullptr :: "(wchar_t \<Rightarrow> cchar list option) \<Rightarrow> wchar_t list \<Rightarrow> size_t" where
  "wcstombs_nullptr mb src =
     (case wcstombs_count mb src of None \<Rightarrow> - 1 | Some k \<Rightarrow> of_nat k)"

text \<open>
  \<open>wcstombs(dst, src, n)\<close> stores whole multibyte characters while they fit into \<open>n\<close>
  bytes and stores the terminating null if there is room left for it; it stops at a wide
  character it cannot convert. The value is the list of bytes stored into \<open>dst\<close>; what
  \<open>dst\<close> held beyond them stays as it was.
\<close>

fun wcstombs_store :: "(wchar_t \<Rightarrow> cchar list option) \<Rightarrow> wchar_t list \<Rightarrow> nat \<Rightarrow> cchar list" where
  "wcstombs_store mb [] n = (if 0 < n then [0] else [])"
| "wcstombs_store mb (c # cs) n =
     (if c = 0 then (if 0 < n then [0] else [])
      else case mb c of
             None \<Rightarrow> []
           | Some bs \<Rightarrow> if length bs \<le> n then bs @ wcstombs_store mb cs (n - length bs)
                       else [])"

subsection \<open>Argument marshalling (lines 100-132)\<close>

text \<open>
  Lines 114-116 for one token: measure, \<open>alloca(len + 1)\<close>, convert with the limit
  \<open>len + 1\<close>. \<open>len + 1\<close> is computed in \<open>size_t\<close>, so it wraps. The three results are
  \<open>len\<close>, the size of the buffer in bytes, and the bytes the conversion stored into it
  (the rest of a fresh \<open>alloca\<close> block is indeterminate).
\<close>

definition convert_arg :: "host \<Rightarrow> wchar_t list \<Rightarrow> size_t \<times> nat \<times> cchar list" where
  "convert_arg h w =
     (let len = wcstombs_nullptr (wctomb_locale h) w;
          room = unat (len + 1)
      in (len, room, wcstombs_store (wctomb_locale h) w room))"

text \<open>The loop of lines 113-117 over the indices \<open>n = 0, ..., argc - 1\<close>; the result is \<open>argv\<close>.\<close>

fun convert_loop :: "host \<Rightarrow> wchar_t list list \<Rightarrow> nat list \<Rightarrow> fault + cchar list list" where
  "convert_loop h wargv [] = Inr []"
| "convert_loop h wargv (n # ns) =
     (if n < length wargv
      then case convert_loop h wargv ns of
             Inl f \<Rightarrow> Inl f
           | Inr argv \<Rightarrow> Inr (snd (snd (convert_arg h (wargv ! n))) # argv)
      else Inl read_outside_wargv)"

text \<open>
  \<open>std::string(argv[n])\<close> copies the bytes before the first null. A buffer whose stored
  bytes hold no null makes it read indeterminate memory.
\<close>

definition string_of_buffer :: "cchar list \<Rightarrow> fault + std_string" where
  "string_of_buffer buf =
     (if 0 \<in> set buf then Inr (takeWhile (\<lambda>b. b \<noteq> 0) buf)
      else Inl read_unterminated_buffer)"

text \<open>
  The loop of lines 127-129 over the indices \<open>n = 0, ..., argc - 1\<close>:
  \<open>args.push_back(std::string(argv[n]))\<close>, with \<open>argc\<close> and \<open>argv\<close> as they stand then.
\<close>

fun push_back_loop :: "cchar list list \<Rightarrow> nat list \<Rightarrow> std_string list \<Rightarrow> fault + std_string list" where
  "push_back_loop argv [] args = Inr args"
| "push_back_loop argv (n # ns) args =
     (if n < length argv
      then case string_of_buffer (argv ! n) of
             Inl f \<Rightarrow> Inl f
           | Inr str \<Rightarrow> push_back_loop argv ns (args @ [str])
      else Inl read_outside_argv)"

text \<open>
  \<open>parse_launch_arguments(entry_info, args)\<close>: \<open>args\<close> is passed by reference, so it is
  both an argument and a part of the result; the \<open>bool\<close> is the function's return value.
\<close>

definition parse_launch_arguments ::
  "host \<Rightarrow> EntryInfo \<Rightarrow> std_string list \<Rightarrow> process \<Rightarrow> fault + (bool \<times> std_string list \<times> process)" where
  "parse_launch_arguments h entry_info args s =
     (case CommandLineToArgvW h of
        None \<Rightarrow> Inr (False, args, s)
      | Some (wargc, wargv) \<Rightarrow>
          (let argc = wargc in
           if argc < 0 then Inl alloca_negative_count
           else
             (case convert_loop h wargv [0 ..< nat argc] of
                Inl f \<Rightarrow> Inl f
              | Inr argv \<Rightarrow>
                  (let s1 = do_call Call_LocalFree s in
                   if \<not> transparent_options entry_info
                   then
                     (case (positional_usage entry_info, positional_options entry_info) of
                        (Some usage, Some options) \<Rightarrow>
                          (let s2 = do_call (Call_cvar_ParseLaunchArguments argv usage options) s1;
                               (argc', argv', cvars') =
                                 cvar_ParseLaunchArguments h argc argv usage options (cvars s2);
                               s3 = s2\<lparr>cvars := cvars'\<rparr>
                           in (case push_back_loop argv' [0 ..< nat argc'] [] of
                                 Inl f \<Rightarrow> Inl f
                               | Inr args' \<Rightarrow> Inr (True, args', s3)))
                      | _ \<Rightarrow> Inl bad_optional_access)
                   else
                     (case push_back_loop argv [0 ..< nat argc] [] of
                        Inl f \<Rightarrow> Inl f
                      | Inr args' \<Rightarrow> Inr (True, args', s1))))))"

subsection \<open>The sequencer (lines 134-183)\<close>

definition avx_message :: string where
  "avx_message =
     ''Your CPU does not support AVX, which is required by Xenia. See the '' @
     ''FAQ for system requirements at https://xenia.jp''"

definition build_banner :: "host \<Rightarrow> string" where
  "build_banner h =
     ''Build: '' @
     (case XE_BUILD_PR h of
        None \<Rightarrow> []
      | Some (pr_number, pr_repo, pr_branch, pr_commit_short) \<Rightarrow>
          ''PR#'' @ pr_number @ '' '' @ pr_repo @ '' '' @ pr_branch @ ''@'' @ pr_commit_short
          @ '' against '') @
     XE_BUILD_BRANCH h @ ''@'' @ XE_BUILD_COMMIT_SHORT h @ '' on '' @ XE_BUILD_DATE h"

definition Main :: "host \<Rightarrow> EntryInfo \<Rightarrow> process \<Rightarrow> fault + (int \<times> process)" where
  "Main h entry_info s =
     (case parse_launch_arguments h entry_info [] s of
        Inl f \<Rightarrow> Inl f
      | Inr (parsed, args, s1) \<Rightarrow>
          if \<not> parsed then Inr (1, s1)
          else
            let s2 = (if enable_console (cvars s1) then AttachConsole h s1 else s1);
                s3 = do_call Call_CoInitializeEx s2;
                s4 = do_call (Call_InitializeLogging (name entry_info)) s3
            in if \<not> cpu_has_tAVX h
               then Inr (- 1, do_call (Call_FatalError avx_message) s4)
               else
                 let s5 = do_call (Call_XELOGI (build_banner h)) s4;
                     s6 = (if win32_high_freq (cvars s5) then RequestHighPerformance h s5 else s5);
                     result = entry_point entry_info args;
                     s7 = do_call (Call_entry_point args) s6;
                     s8 = do_call Call_ShutdownLogging s7
                 in Inr (result, s8))"

subsection \<open>Vocabulary of the statements\<close>

text \<open>The calls a run added: those of the state after it that the state before it lacks.\<close>

definition calls_since :: "process \<Rightarrow> process \<Rightarrow> call list" where
  "calls_since s s' = drop (length (calls s)) (calls s')"

fun is_marshalling_call :: "call \<Rightarrow> bool" where
  "is_marshalling_call Call_LocalFree = True"
| "is_marshalling_call (Call_cvar_ParseLaunchArguments argv usage options) = True"
| "is_marshalling_call _ = False"

fun is_console_call :: "call \<Rightarrow> bool" where
  "is_console_call Call_AttachConsole_parent = True"
| "is_console_call Call_AllocConsole = True"
| "is_console_call (Call_open_osfhandle_O_TEXT f) = True"
| "is_console_call (Call_fdopen_w f) = True"
| "is_console_call (Call_freopen_s_CONOUT_w f) = True"
| "is_console_call _ = False"

fun is_timer_call :: "call \<Rightarrow> bool" where
  "is_timer_call Call_NtQueryTimerResolution = True"
| "is_timer_call (Call_NtSetTimerResolution resolution set_resolution) = True"
| "is_timer_call _ = False"

fun is_logging_lifecycle_call :: "call \<Rightarrow> bool" where
  "is_logging_lifecycle_call (Call_InitializeLogging app_name) = True"
| "is_logging_lifecycle_call Call_ShutdownLogging = True"
| "is_logging_lifecycle_call _ = False"

fun is_entry_point_call :: "call \<Rightarrow> bool" where
  "is_entry_point_call (Call_entry_point args) = True"
| "is_entry_point_call _ = False"

text \<open>
  The calls \<open>AttachConsole\<close> and \<open>RequestHighPerformance\<close> make on a host; they do not
  depend on the state the functions start in (lemmas \<open>AttachConsole_calls\<close> and
  \<open>RequestHighPerformance_calls\<close>).
\<close>

definition console_requests :: "host \<Rightarrow> call list" where
  "console_requests h = calls_since process_start (AttachConsole h process_start)"

definition timer_requests :: "host \<Rightarrow> call list" where
  "timer_requests h = calls_since process_start (RequestHighPerformance h process_start)"




subsection \<open>Concrete hosts and entry descriptors\<close>

text \<open>
  The "C" locale of the Microsoft runtime, in which a process starts: a code unit below
  256 becomes the byte of the same value, and any other has no multibyte form.
\<close>

definition C_locale :: "wchar_t \<Rightarrow> cchar list option" where
  "C_locale c = (if c < 256 then Some [ucast c] else None)"

definition wide :: "string \<Rightarrow> wchar_t list" where
  "wide = map of_char"

definition narrow :: "string \<Rightarrow> std_string" where
  "narrow = map of_char"

text \<open>
  A machine with AVX and an adjustable timer, started by \<open>prog.exe --flag value\<close> from a
  parent with a console, with \<open>SHELL\<close> set; an option parser that turns the console on
  when it sees \<open>--enable_console\<close> among the arguments and leaves the rest, and the
  arguments themselves, alone.
\<close>

definition demo_parser ::
  "int \<Rightarrow> cchar list list \<Rightarrow> string \<Rightarrow> string list \<Rightarrow> cvars \<Rightarrow> int \<times> cchar list list \<times> cvars" where
  "demo_parser argc argv usage options cv =
     (argc, argv,
      if narrow ''--enable_console'' @ [0] \<in> set argv then cv\<lparr>enable_console := True\<rparr> else cv)"

definition demo_tokens :: "wchar_t list list" where
  "demo_tokens = [wide ''prog.exe'', wide ''--flag'', wide ''value'']"

definition demo_host :: host where
  "demo_host =
     \<lparr>CommandLineToArgvW = Some (3, demo_tokens),
      wctomb_locale = C_locale,
      AttachConsole_ATTACH_PARENT_PROCESS = True,
      getenv = [''SHELL'' \<mapsto> ''/bin/bash''],
      cpu_has_tAVX = True,
      GetProcAddress_NtQueryTimerResolution = Some (156250, 5000, 156250),
      GetProcAddress_NtSetTimerResolution = True,
      cvar_ParseLaunchArguments = demo_parser,
      XE_PLATFORM_WIN32 = True,
      XE_BUILD_PR = None,
      XE_BUILD_BRANCH = ''master'',
      XE_BUILD_COMMIT_SHORT = ''0000000'',
      XE_BUILD_DATE = ''Jan 1 2021''\<rparr>"

text \<open>The same machine started by \<open>prog.exe --enable_console\<close>.\<close>

definition console_host :: host where
  "console_host =
     demo_host\<lparr>CommandLineToArgvW := Some (2, [wide ''prog.exe'', wide ''--enable_console''])\<rparr>"

text \<open>An application that bypasses option parsing, and one that does not.\<close>

definition transparent_entry :: EntryInfo where
  "transparent_entry =
     \<lparr>name = ''demo'', transparent_options = True, positional_usage = None,
      positional_options = None, entry_point = (\<lambda>args. int (length args))\<rparr>"

definition parsing_entry :: EntryInfo where
  "parsing_entry =
     \<lparr>name = ''demo'', transparent_options = False, positional_usage = Some ''[file]'',
      positional_options = Some [''target''], entry_point = (\<lambda>args. 7 - int (length args))\<rparr>"

text \<open>The same machine with a CPU that lacks AVX, and one started without \<open>SHELL\<close>.\<close>

definition old_cpu_host :: host where
  "old_cpu_host = demo_host\<lparr>cpu_has_tAVX := False\<rparr>"

definition headless_host :: host where
  "headless_host = console_host\<lparr>getenv := Map.empty\<rparr>"

text \<open>The same machine started with the one token U+3042, a character outside the "C" locale.\<close>

definition kana_host :: host where
  "kana_host = demo_host\<lparr>CommandLineToArgvW := Some (1, [[0x3042]])\<rparr>"

text \<open>The states in which these runs end, written out; the theorems below check them.\<close>

definition demo_parsed :: process where
  "demo_parsed =
     \<lparr>has_console_attached_var = True,
      cvars = \<lparr>win32_high_freq = True, enable_console = False\<rparr>,
      calls =
        [Call_LocalFree,
         Call_cvar_ParseLaunchArguments
           [narrow ''prog.exe'' @ [0], narrow ''--flag'' @ [0], narrow ''value'' @ [0]]
           ''[file]'' [''target'']]\<rparr>"

definition demo_args :: "std_string list" where
  "demo_args = [narrow ''prog.exe'', narrow ''--flag'', narrow ''value'']"

definition demo_run_end :: process where
  "demo_run_end =
     \<lparr>has_console_attached_var = True,
      cvars = \<lparr>win32_high_freq = True, enable_console = False\<rparr>,
      calls =
        [Call_LocalFree, Call_CoInitializeEx, Call_InitializeLogging ''demo'',
         Call_XELOGI ''Build: master@0000000 on Jan 1 2021'',
         Call_NtQueryTimerResolution, Call_NtSetTimerResolution 5000 True,
         Call_entry_point demo_args, Call_ShutdownLogging]\<rparr>"

definition old_cpu_run_end :: process where
  "old_cpu_run_end =
     \<lparr>has_console_attached_var = True,
      cvars = \<lparr>win32_high_freq = True, enable_console = False\<rparr>,
      calls =
        [Call_LocalFree, Call_CoInitializeEx, Call_InitializeLogging ''demo'',
         Call_FatalError avx_message]\<rparr>"

definition console_args :: "std_string list" where
  "console_args = [narrow ''prog.exe'', narrow ''--enable_console'']"

definition console_parsed :: process where
  "console_parsed =
     \<lparr>has_console_attached_var = True,
      cvars = \<lparr>win32_high_freq = True, enable_console = True\<rparr>,
      calls =
        [Call_LocalFree,
         Call_cvar_ParseLaunchArguments
           [narrow ''prog.exe'' @ [0], narrow ''--enable_console'' @ [0]] ''[file]'' [''target'']]\<rparr>"

definition headless_run_end :: process where
  "headless_run_end =
     \<lparr>has_console_attached_var = False,
      cvars = \<lparr>win32_high_freq = True, enable_console = True\<rparr>,
      calls =
        calls console_parsed @
        [Call_AttachConsole_parent, Call_CoInitializeEx, Call_InitializeLogging ''demo'',
         Call_XELOGI ''Build: master@0000000 on Jan 1 2021'',
         Call_NtQueryTimerResolution, Call_NtSetTimerResolution 5000 True,
         Call_entry_point console_args, Call_ShutdownLogging]\<rparr>"

section \<open>Frame lemmas: what each step leaves alone\<close>

lemma do_call_simps [simp]:
  "calls (do_call c s) = calls s @ [c]"
  "cvars (do_call c s) = cvars s"
  "has_console_attached_var (do_call c s) = has_console_attached_var s"
  by (simp_all add: do_call_def)

lemma calls_since_append [simp]: "calls s' = calls s @ cs \<Longrightarrow> calls_since s s' = cs"
  by (simp add: calls_since_def)

lemma calls_since_self [simp]: "calls_since s s = []"
  by (simp add: calls_since_def)

lemma rebind_simps [simp]:
  "calls (rebind f s) =
     calls s @ [Call_open_osfhandle_O_TEXT f, Call_fdopen_w f, Call_freopen_s_CONOUT_w f]"
  "cvars (rebind f s) = cvars s"
  "has_console_attached_var (rebind f s) = has_console_attached_var s"
  by (simp_all add: rebind_def)

lemma has_shell_environment_variable_absent:
  "getenv h ''SHELL'' = None \<Longrightarrow> \<not> has_shell_environment_variable h"
  by (simp add: has_shell_environment_variable_def getenv_s_size_def)

lemma AttachConsole_headless:
  assumes "\<not> AttachConsole_ATTACH_PARENT_PROCESS h \<or> \<not> has_shell_environment_variable h"
  shows "AttachConsole h s =
           s\<lparr>has_console_attached_var := False, calls := calls s @ [Call_AttachConsole_parent]\<rparr>"
  using assms by (auto simp: AttachConsole_def Let_def do_call_def)

lemma AttachConsole_cvars [simp]: "cvars (AttachConsole h s) = cvars s"
  by (simp add: AttachConsole_def Let_def)

lemma AttachConsole_flag [simp]:
  "has_console_attached_var (AttachConsole h s) =
     (AttachConsole_ATTACH_PARENT_PROCESS h \<and> has_shell_environment_variable h)"
  by (simp add: AttachConsole_def Let_def)

lemma console_requests_eq:
  "console_requests h =
     (if \<not> AttachConsole_ATTACH_PARENT_PROCESS h \<or> \<not> has_shell_environment_variable h
      then [Call_AttachConsole_parent]
      else [Call_AttachConsole_parent, Call_AllocConsole,
            Call_open_osfhandle_O_TEXT stdout, Call_fdopen_w stdout, Call_freopen_s_CONOUT_w stdout,
            Call_open_osfhandle_O_TEXT stderr, Call_fdopen_w stderr, Call_freopen_s_CONOUT_w stderr])"
  by (simp add: console_requests_def AttachConsole_def Let_def calls_since_def process_start_def)

lemma AttachConsole_calls: "calls (AttachConsole h s) = calls s @ console_requests h"
  by (simp add: console_requests_eq) (simp add: AttachConsole_def Let_def)

lemma console_requests_kind: "list_all is_console_call (console_requests h)"
  by (simp add: console_requests_eq)

lemma RequestHighPerformance_frame [simp]:
  "cvars (RequestHighPerformance h s) = cvars s"
  "has_console_attached_var (RequestHighPerformance h s) = has_console_attached_var s"
  by (simp_all add: RequestHighPerformance_def split: option.split prod.split)

lemma timer_requests_eq:
  "timer_requests h =
     (if XE_PLATFORM_WIN32 h \<and> GetProcAddress_NtSetTimerResolution h
      then case GetProcAddress_NtQueryTimerResolution h of
             None \<Rightarrow> []
           | Some (minimum_resolution, maximum_resolution, current_resolution) \<Rightarrow>
               [Call_NtQueryTimerResolution, Call_NtSetTimerResolution maximum_resolution True]
      else [])"
  by (simp add: timer_requests_def RequestHighPerformance_def calls_since_def process_start_def
           split: option.split prod.split)

lemma RequestHighPerformance_calls:
  "calls (RequestHighPerformance h s) = calls s @ timer_requests h"
  by (simp add: timer_requests_eq) (simp add: RequestHighPerformance_def split: option.split prod.split)

lemma timer_requests_kind: "list_all is_timer_call (timer_requests h)"
  by (simp add: timer_requests_eq split: option.split prod.split)

lemma parse_launch_arguments_frame:
  assumes "parse_launch_arguments h e a s = Inr (parsed, args, s1)"
  shows "has_console_attached_var s1 = has_console_attached_var s"
    and "\<exists>cs. calls s1 = calls s @ cs \<and> list_all is_marshalling_call cs"
  using assms
  by (auto simp: parse_launch_arguments_def Let_def
           split: option.splits prod.splits if_splits sum.splits)

lemma parse_launch_arguments_null:
  "CommandLineToArgvW h = None \<Longrightarrow> parse_launch_arguments h e a s = Inr (False, a, s)"
  by (simp add: parse_launch_arguments_def)

lemma parse_launch_arguments_parsed:
  assumes "CommandLineToArgvW h = Some (wargc, wargv)"
    and "parse_launch_arguments h e a s = Inr (parsed, args, s1)"
  shows "parsed"
  using assms
  by (auto simp: parse_launch_arguments_def Let_def
           split: option.splits prod.splits if_splits sum.splits)

section \<open>The sequencer after marshalling\<close>

lemma filter_none:
  assumes "list_all P cs" and "\<And>c. P c \<Longrightarrow> \<not> Q c"
  shows "filter Q cs = []"
  using assms by (induction cs) auto

lemma call_kinds_disjoint:
  "is_marshalling_call c \<Longrightarrow> \<not> is_console_call c"
  "is_marshalling_call c \<Longrightarrow> \<not> is_timer_call c"
  "is_marshalling_call c \<Longrightarrow> \<not> is_logging_lifecycle_call c"
  "is_marshalling_call c \<Longrightarrow> \<not> is_entry_point_call c"
  "is_console_call c \<Longrightarrow> \<not> is_timer_call c"
  "is_console_call c \<Longrightarrow> \<not> is_logging_lifecycle_call c"
  "is_console_call c \<Longrightarrow> \<not> is_entry_point_call c"
  "is_timer_call c \<Longrightarrow> \<not> is_console_call c"
  "is_timer_call c \<Longrightarrow> \<not> is_logging_lifecycle_call c"
  "is_timer_call c \<Longrightarrow> \<not> is_entry_point_call c"
  by (cases c; simp)+

lemma filter_console_requests:
  "filter is_timer_call (console_requests h) = []"
  "filter is_logging_lifecycle_call (console_requests h) = []"
  "filter is_entry_point_call (console_requests h) = []"
  by (rule filter_none [OF console_requests_kind], simp add: call_kinds_disjoint)+

lemma filter_timer_requests:
  "filter is_console_call (timer_requests h) = []"
  "filter is_logging_lifecycle_call (timer_requests h) = []"
  "filter is_entry_point_call (timer_requests h) = []"
  by (rule filter_none [OF timer_requests_kind], simp add: call_kinds_disjoint)+

text \<open>
  What \<open>Main\<close> does once the arguments are marshalled, in one equation: the exit code,
  the calls in their order, the configuration and the console flag.
\<close>

lemma Main_parsed:
  assumes "parse_launch_arguments h e [] s = Inr (True, args, s1)"
  shows "\<exists>s'.
           Main h e s = Inr (if cpu_has_tAVX h then entry_point e args else - 1, s')
         \<and> calls s' =
              calls s1 @ (if enable_console (cvars s1) then console_requests h else []) @
              [Call_CoInitializeEx, Call_InitializeLogging (name e)] @
              (if cpu_has_tAVX h
               then Call_XELOGI (build_banner h) #
                    (if win32_high_freq (cvars s1) then timer_requests h else []) @
                    [Call_entry_point args, Call_ShutdownLogging]
               else [Call_FatalError avx_message])
         \<and> cvars s' = cvars s1
         \<and> has_console_attached_var s' =
              (if enable_console (cvars s1)
               then AttachConsole_ATTACH_PARENT_PROCESS h \<and> has_shell_environment_variable h
               else has_console_attached_var s1)"
  using assms
  by (simp add: Main_def Let_def AttachConsole_calls RequestHighPerformance_calls)

lemma Main_returns:
  assumes "parse_launch_arguments h e [] s = Inr (parsed, args, s1)"
  shows "\<exists>rc s'. Main h e s = Inr (rc, s')"
  using assms by (simp add: Main_def Let_def)

lemma Main_not_parsed:
  assumes "parse_launch_arguments h e [] s = Inr (False, args, s1)"
  shows "Main h e s = Inr (1, s1)"
  using assms by (simp add: Main_def)

lemma Main_Inr_cases:
  assumes "Main h e s = Inr (rc, s')"
  obtains args where "parse_launch_arguments h e [] s = Inr (False, args, s')" "rc = 1"
  | args s1 where "parse_launch_arguments h e [] s = Inr (True, args, s1)"
  using assms by (auto simp: Main_def Let_def split: sum.splits if_splits)

section \<open>Concrete runs\<close>

text \<open>Evaluating the model on the concrete hosts.\<close>

lemmas run_defs =
  Main_def parse_launch_arguments_def convert_arg_def wcstombs_nullptr_def string_of_buffer_def
  AttachConsole_def rebind_def has_shell_environment_variable_def getenv_s_size_def
  RequestHighPerformance_def build_banner_def do_call_def process_start_def
  DEFINE_bool_defaults_def Let_def upt_conv_Cons calls_since_def
  C_locale_def wide_def narrow_def demo_parser_def demo_tokens_def demo_host_def console_host_def
  old_cpu_host_def headless_host_def transparent_entry_def parsing_entry_def
  demo_args_def demo_run_end_def old_cpu_run_end_def console_args_def console_parsed_def
  headless_run_end_def kana_host_def demo_parsed_def

lemma demo_parse:
  "parse_launch_arguments demo_host transparent_entry [] process_start
     = Inr (True, demo_args, do_call Call_LocalFree process_start)"
  by (simp add: run_defs)

lemma old_cpu_parse:
  "parse_launch_arguments old_cpu_host transparent_entry [] process_start
     = Inr (True, demo_args, do_call Call_LocalFree process_start)"
  by (simp add: run_defs)

lemma demo_run: "Main demo_host transparent_entry process_start = Inr (3, demo_run_end)"
  by (simp add: run_defs)

lemma old_cpu_run: "Main old_cpu_host transparent_entry process_start = Inr (- 1, old_cpu_run_end)"
  by (simp add: run_defs)

lemma headless_parse:
  "parse_launch_arguments headless_host parsing_entry [] process_start
     = Inr (True, console_args, console_parsed)"
  by (simp add: run_defs)

lemma headless_run: "Main headless_host parsing_entry process_start = Inr (5, headless_run_end)"
  by (simp add: run_defs)

section \<open>The claims\<close>

subsection \<open>C4: a null token array\<close>

text \<open>
  C4. When \<open>CommandLineToArgvW\<close> returns a null array, \<open>parse_launch_arguments\<close> returns
  false and leaves \<open>args\<close> and the process as they were, and \<open>Main\<close> returns the exit
  code 1 in the very state it started in: no call was made, so neither the console
  negotiator nor COM, logging, the timer or the entry point ran.
\<close>

theorem Main_null_command_line:
  assumes "CommandLineToArgvW h = None"
  shows "parse_launch_arguments h e a s = Inr (False, a, s) \<and> Main h e s = Inr (1, s)"
  using assms by (simp add: parse_launch_arguments_null Main_def)

theorem Main_null_command_line_witness:
  "CommandLineToArgvW (demo_host\<lparr>CommandLineToArgvW := None\<rparr>) = None
   \<and> parse_launch_arguments (demo_host\<lparr>CommandLineToArgvW := None\<rparr>) parsing_entry []
        process_start = Inr (False, [], process_start)
   \<and> Main (demo_host\<lparr>CommandLineToArgvW := None\<rparr>) parsing_entry process_start
        = Inr (1, process_start)
   \<and> calls process_start = []"
  using Main_null_command_line
    [of "demo_host\<lparr>CommandLineToArgvW := None\<rparr>" parsing_entry "[]" process_start]
  by (simp add: process_start_def)

subsection \<open>C1: a CPU without AVX\<close>

text \<open>
  C1. On a CPU without AVX no run of \<open>Main\<close> that returns has called the entry point or
  the timer functions. When the arguments were marshalled, so that the capability check
  is reached, \<open>Main\<close> returns \<open>-1\<close>, which is not the marshalling failure's 1, and
  the last thing it did was the one call of \<open>FatalError\<close> with the message about AVX.
\<close>

theorem Main_without_AVX:
  assumes "\<not> cpu_has_tAVX h"
  shows "(\<forall>rc s'. Main h e s = Inr (rc, s') \<longrightarrow>
            filter is_entry_point_call (calls_since s s') = []
          \<and> filter is_timer_call (calls_since s s') = [])
       \<and> (\<forall>args s1. parse_launch_arguments h e [] s = Inr (True, args, s1) \<longrightarrow>
            (\<exists>s'. Main h e s = Inr (- 1, s') \<and> (- 1 :: int) \<noteq> 1
                 \<and> last (calls s') = Call_FatalError avx_message
                 \<and> filter (\<lambda>c. c = Call_FatalError avx_message) (calls_since s s')
                     = [Call_FatalError avx_message]))"
proof -
  have fatal: "\<exists>s'. Main h e s = Inr (- 1, s')
      \<and> last (calls s') = Call_FatalError avx_message
      \<and> filter (\<lambda>c. c = Call_FatalError avx_message) (calls_since s s')
           = [Call_FatalError avx_message]
      \<and> filter is_entry_point_call (calls_since s s') = []
      \<and> filter is_timer_call (calls_since s s') = []"
    if p: "parse_launch_arguments h e [] s = Inr (True, args, s1)" for args s1
  proof -
    obtain ms where ms: "calls s1 = calls s @ ms" "list_all is_marshalling_call ms"
      using parse_launch_arguments_frame(2) [OF p] by blast
    obtain s' where m: "Main h e s = Inr (- 1, s')"
      "calls s' = calls s1 @ (if enable_console (cvars s1) then console_requests h else []) @
         [Call_CoInitializeEx, Call_InitializeLogging (name e), Call_FatalError avx_message]"
      using Main_parsed [OF p] assms by auto
    have ms_fatal: "filter (\<lambda>c. c = Call_FatalError avx_message) ms = []"
      by (rule filter_none [OF ms(2)]) auto
    have cs_fatal: "filter (\<lambda>c. c = Call_FatalError avx_message) (console_requests h) = []"
      by (rule filter_none [OF console_requests_kind]) auto
    have c: "calls s' = calls s @ (ms @ (if enable_console (cvars s1) then console_requests h else []) @
         [Call_CoInitializeEx, Call_InitializeLogging (name e), Call_FatalError avx_message])"
      using m(2) ms(1) by simp
    have since: "calls_since s s' = ms @ (if enable_console (cvars s1) then console_requests h else []) @
         [Call_CoInitializeEx, Call_InitializeLogging (name e), Call_FatalError avx_message]"
      by (rule calls_since_append [OF c])
    show ?thesis
      using m(1) m(2) ms_fatal cs_fatal
      by (simp add: since filter_none [OF ms(2)] call_kinds_disjoint filter_console_requests)
  qed
  have quiet: "filter is_entry_point_call (calls_since s s') = []
      \<and> filter is_timer_call (calls_since s s') = []"
    if run: "Main h e s = Inr (rc, s')" for rc s'
  proof (rule Main_Inr_cases [OF run])
    fix args
    assume p: "parse_launch_arguments h e [] s = Inr (False, args, s')"
    obtain ms where ms: "calls s' = calls s @ ms" "list_all is_marshalling_call ms"
      using parse_launch_arguments_frame(2) [OF p] by blast
    show ?thesis
      by (simp add: calls_since_append [OF ms(1)] filter_none [OF ms(2)] call_kinds_disjoint)
  next
    fix args s1
    assume p: "parse_launch_arguments h e [] s = Inr (True, args, s1)"
    show ?thesis using fatal [OF p] run by auto
  qed
  show ?thesis
  proof (intro conjI allI impI)
    fix rc s'
    assume "Main h e s = Inr (rc, s')"
    from quiet [OF this]
    show "filter is_entry_point_call (calls_since s s') = []"
      and "filter is_timer_call (calls_since s s') = []"
      by simp_all
  next
    fix args s1
    assume "parse_launch_arguments h e [] s = Inr (True, args, s1)"
    from fatal [OF this]
    show "\<exists>s'. Main h e s = Inr (- 1, s') \<and> (- 1 :: int) \<noteq> 1
            \<and> last (calls s') = Call_FatalError avx_message
            \<and> filter (\<lambda>c. c = Call_FatalError avx_message) (calls_since s s')
                = [Call_FatalError avx_message]"
      by auto
  qed
qed

theorem Main_without_AVX_witness:
  "\<not> cpu_has_tAVX old_cpu_host
   \<and> parse_launch_arguments old_cpu_host transparent_entry [] process_start
       = Inr (True, demo_args, do_call Call_LocalFree process_start)
   \<and> Main old_cpu_host transparent_entry process_start = Inr (- 1, old_cpu_run_end)
   \<and> filter is_entry_point_call (calls_since process_start old_cpu_run_end) = []
   \<and> filter is_timer_call (calls_since process_start old_cpu_run_end) = []
   \<and> last (calls old_cpu_run_end) = Call_FatalError avx_message"
proof -
  have h: "\<not> cpu_has_tAVX old_cpu_host"
    by (simp add: old_cpu_host_def demo_host_def)
  from Main_without_AVX [OF h, of transparent_entry process_start] old_cpu_run
  have "filter is_entry_point_call (calls_since process_start old_cpu_run_end) = []
      \<and> filter is_timer_call (calls_since process_start old_cpu_run_end) = []"
    by blast
  then show ?thesis
    using h old_cpu_parse old_cpu_run by (simp add: old_cpu_run_end_def)
qed

subsection \<open>C2: the logging lifecycle\<close>

text \<open>
  C2, as stated, fails on the path it names last: on a CPU without AVX \<open>Main\<close>
  initialises logging, calls \<open>FatalError\<close> and returns \<open>-1\<close>; it makes no call of
  \<open>ShutdownLogging\<close> on that path.
\<close>

theorem logging_shutdown_counterexample:
  "Main old_cpu_host transparent_entry process_start = Inr (- 1, old_cpu_run_end)
   \<and> filter is_logging_lifecycle_call (calls_since process_start old_cpu_run_end)
       = [Call_InitializeLogging ''demo'']
   \<and> count_list (calls old_cpu_run_end) Call_ShutdownLogging = 0"
  using old_cpu_run by (simp add: old_cpu_run_end_def process_start_def calls_since_def)

text \<open>
  C2, amended. On every path of \<open>Main\<close> on which the arguments were marshalled and the
  CPU has AVX, \<open>Main\<close> returns what the entry point returned, whatever that is; of the
  calls it made, the logging lifecycle calls are one \<open>InitializeLogging\<close> followed by
  one \<open>ShutdownLogging\<close>, the entry point's call lies between the two, and the
  shutdown is the last call before \<open>Main\<close> returns.
\<close>

theorem logging_lifecycle_around_entry_point:
  assumes "parse_launch_arguments h e [] s = Inr (True, args, s1)"
    and "cpu_has_tAVX h"
  shows "\<exists>s'. Main h e s = Inr (entry_point e args, s')
           \<and> filter is_logging_lifecycle_call (calls_since s s')
               = [Call_InitializeLogging (name e), Call_ShutdownLogging]
           \<and> filter (\<lambda>c. is_logging_lifecycle_call c \<or> is_entry_point_call c) (calls_since s s')
               = [Call_InitializeLogging (name e), Call_entry_point args, Call_ShutdownLogging]
           \<and> last (calls s') = Call_ShutdownLogging"
proof -
  obtain ms where ms: "calls s1 = calls s @ ms" "list_all is_marshalling_call ms"
    using parse_launch_arguments_frame(2) [OF assms(1)] by blast
  let ?cs = "if enable_console (cvars s1) then console_requests h else []"
  let ?ts = "if win32_high_freq (cvars s1) then timer_requests h else []"
  obtain s' where m: "Main h e s = Inr (entry_point e args, s')"
    "calls s' = calls s1 @ ?cs @ [Call_CoInitializeEx, Call_InitializeLogging (name e)] @
       Call_XELOGI (build_banner h) # ?ts @ [Call_entry_point args, Call_ShutdownLogging]"
    using Main_parsed [OF assms(1)] assms(2) by auto
  have c: "calls s' = calls s @ (ms @ ?cs @ [Call_CoInitializeEx, Call_InitializeLogging (name e)] @
       Call_XELOGI (build_banner h) # ?ts @ [Call_entry_point args, Call_ShutdownLogging])"
    using m(2) ms(1) by simp
  have either: "filter (\<lambda>c. is_logging_lifecycle_call c \<or> is_entry_point_call c) xs = []"
    if "filter is_logging_lifecycle_call xs = []" "filter is_entry_point_call xs = []" for xs
    using that by (induction xs) (auto split: if_splits)
  have ms_none: "filter is_logging_lifecycle_call ms = []" "filter is_entry_point_call ms = []"
    by (simp_all add: filter_none [OF ms(2)] call_kinds_disjoint)
  have cs_none: "filter is_logging_lifecycle_call ?cs = []" "filter is_entry_point_call ?cs = []"
    by (simp_all add: filter_console_requests)
  have ts_none: "filter is_logging_lifecycle_call ?ts = []" "filter is_entry_point_call ?ts = []"
    by (simp_all add: filter_timer_requests)
  show ?thesis
    using m(1) m(2)
    by (simp add: calls_since_append [OF c] ms_none cs_none ts_none
          either [OF ms_none] either [OF cs_none] either [OF ts_none])
qed

theorem logging_lifecycle_around_entry_point_witness:
  "parse_launch_arguments demo_host transparent_entry [] process_start
     = Inr (True, demo_args, do_call Call_LocalFree process_start)
   \<and> cpu_has_tAVX demo_host
   \<and> Main demo_host transparent_entry process_start = Inr (3, demo_run_end)
   \<and> entry_point transparent_entry demo_args = 3
   \<and> filter is_logging_lifecycle_call (calls_since process_start demo_run_end)
       = [Call_InitializeLogging ''demo'', Call_ShutdownLogging]
   \<and> last (calls demo_run_end) = Call_ShutdownLogging"
proof -
  have avx: "cpu_has_tAVX demo_host"
    by (simp add: demo_host_def)
  from logging_lifecycle_around_entry_point [OF demo_parse avx] demo_run
  have "filter is_logging_lifecycle_call (calls_since process_start demo_run_end)
          = [Call_InitializeLogging (name transparent_entry), Call_ShutdownLogging]
      \<and> last (calls demo_run_end) = Call_ShutdownLogging"
    by auto
  then show ?thesis
    using demo_parse avx demo_run by (simp add: transparent_entry_def demo_args_def)
qed

subsection \<open>C7: the entry point\<close>

text \<open>
  C7. On every path that is not fatal, that is, when the arguments were marshalled and
  the CPU has AVX, \<open>Main\<close> calls the entry point exactly once, with the token sequence
  \<open>parse_launch_arguments\<close> produced, and returns the integer the entry point returned.
\<close>

theorem entry_point_called_once:
  assumes "parse_launch_arguments h e [] s = Inr (True, args, s1)"
    and "cpu_has_tAVX h"
  shows "\<exists>s'. Main h e s = Inr (entry_point e args, s')
           \<and> filter is_entry_point_call (calls_since s s') = [Call_entry_point args]"
proof -
  obtain ms where ms: "calls s1 = calls s @ ms" "list_all is_marshalling_call ms"
    using parse_launch_arguments_frame(2) [OF assms(1)] by blast
  let ?cs = "if enable_console (cvars s1) then console_requests h else []"
  let ?ts = "if win32_high_freq (cvars s1) then timer_requests h else []"
  obtain s' where m: "Main h e s = Inr (entry_point e args, s')"
    "calls s' = calls s1 @ ?cs @ [Call_CoInitializeEx, Call_InitializeLogging (name e)] @
       Call_XELOGI (build_banner h) # ?ts @ [Call_entry_point args, Call_ShutdownLogging]"
    using Main_parsed [OF assms(1)] assms(2) by auto
  have c: "calls s' = calls s @ (ms @ ?cs @ [Call_CoInitializeEx, Call_InitializeLogging (name e)] @
       Call_XELOGI (build_banner h) # ?ts @ [Call_entry_point args, Call_ShutdownLogging])"
    using m(2) ms(1) by simp
  show ?thesis
    using m(1)
    by (simp add: calls_since_append [OF c] filter_none [OF ms(2)] call_kinds_disjoint
          filter_console_requests filter_timer_requests)
qed

theorem entry_point_called_once_witness:
  "parse_launch_arguments demo_host transparent_entry [] process_start
     = Inr (True, demo_args, do_call Call_LocalFree process_start)
   \<and> cpu_has_tAVX demo_host
   \<and> Main demo_host transparent_entry process_start
       = Inr (entry_point transparent_entry demo_args, demo_run_end)
   \<and> filter is_entry_point_call (calls_since process_start demo_run_end)
       = [Call_entry_point demo_args]"
proof -
  have avx: "cpu_has_tAVX demo_host"
    by (simp add: demo_host_def)
  from entry_point_called_once [OF demo_parse avx] demo_run
  have "filter is_entry_point_call (calls_since process_start demo_run_end)
          = [Call_entry_point demo_args]"
    by auto
  then show ?thesis
    using demo_parse avx demo_run by (simp add: transparent_entry_def demo_args_def)
qed

subsection \<open>C6: the headless fallback of AttachConsole\<close>

text \<open>
  C6. When attaching to the parent's console fails or \<open>SHELL\<close> is not in the
  environment, \<open>AttachConsole\<close> makes the one call that tries to attach and nothing
  else, so \<open>AllocConsole\<close> is not reached; it records \<open>has_console_attached_ = false\<close>
  and leaves the configuration alone. It is a total function on the process state, and
  \<open>Main\<close> goes on after it: a run with the console enabled whose arguments were
  marshalled returns, with the flag false and that one console call.
\<close>

theorem AttachConsole_headless_fallback:
  assumes "\<not> AttachConsole_ATTACH_PARENT_PROCESS h \<or> getenv h ''SHELL'' = None"
  shows "has_console_attached (AttachConsole h s) = False
       \<and> calls_since s (AttachConsole h s) = [Call_AttachConsole_parent]
       \<and> Call_AllocConsole \<notin> set (calls_since s (AttachConsole h s))
       \<and> cvars (AttachConsole h s) = cvars s
       \<and> (\<forall>args s1. parse_launch_arguments h e [] s = Inr (True, args, s1)
              \<and> enable_console (cvars s1) \<longrightarrow>
            (\<exists>rc s'. Main h e s = Inr (rc, s') \<and> has_console_attached s' = False
               \<and> filter is_console_call (calls_since s s') = [Call_AttachConsole_parent]))"
proof -
  have headless: "\<not> AttachConsole_ATTACH_PARENT_PROCESS h \<or> \<not> has_shell_environment_variable h"
    using assms has_shell_environment_variable_absent by blast
  then have req: "console_requests h = [Call_AttachConsole_parent]"
    by (simp add: console_requests_eq)
  have since: "calls_since s (AttachConsole h s) = [Call_AttachConsole_parent]"
    using AttachConsole_calls [of h s] req by simp
  have flag: "has_console_attached (AttachConsole h s) = False"
    using headless by (auto simp: has_console_attached_def)
  have main: "\<exists>rc s'. Main h e s = Inr (rc, s') \<and> has_console_attached s' = False
               \<and> filter is_console_call (calls_since s s') = [Call_AttachConsole_parent]"
    if p: "parse_launch_arguments h e [] s = Inr (True, args, s1)"
      and on: "enable_console (cvars s1)" for args s1
  proof -
    obtain ms where ms: "calls s1 = calls s @ ms" "list_all is_marshalling_call ms"
      using parse_launch_arguments_frame(2) [OF p] by blast
    obtain rc s' where m: "Main h e s = Inr (rc, s')"
      "calls s' = calls s1 @ [Call_AttachConsole_parent] @
         [Call_CoInitializeEx, Call_InitializeLogging (name e)] @
         (if cpu_has_tAVX h
          then Call_XELOGI (build_banner h) #
               (if win32_high_freq (cvars s1) then timer_requests h else []) @
               [Call_entry_point args, Call_ShutdownLogging]
          else [Call_FatalError avx_message])"
      "has_console_attached_var s' =
         (AttachConsole_ATTACH_PARENT_PROCESS h \<and> has_shell_environment_variable h)"
      using Main_parsed [OF p] on req by auto
    have c: "calls s' = calls s @ (ms @ [Call_AttachConsole_parent] @
         [Call_CoInitializeEx, Call_InitializeLogging (name e)] @
         (if cpu_has_tAVX h
          then Call_XELOGI (build_banner h) #
               (if win32_high_freq (cvars s1) then timer_requests h else []) @
               [Call_entry_point args, Call_ShutdownLogging]
          else [Call_FatalError avx_message]))"
      using m(2) ms(1) by simp
    have "filter is_console_call (calls_since s s') = [Call_AttachConsole_parent]"
      by (simp add: calls_since_append [OF c] filter_none [OF ms(2)] call_kinds_disjoint
            filter_timer_requests)
    moreover have "has_console_attached s' = False"
      using m(3) headless by (auto simp: has_console_attached_def)
    ultimately show ?thesis using m(1) by blast
  qed
  show ?thesis
    using since flag main by simp
qed

theorem AttachConsole_headless_fallback_witness:
  "getenv headless_host ''SHELL'' = None
   \<and> has_console_attached (AttachConsole headless_host process_start) = False
   \<and> calls_since process_start (AttachConsole headless_host process_start)
       = [Call_AttachConsole_parent]
   \<and> parse_launch_arguments headless_host parsing_entry [] process_start
       = Inr (True, console_args, console_parsed)
   \<and> enable_console (cvars console_parsed)
   \<and> Main headless_host parsing_entry process_start = Inr (5, headless_run_end)
   \<and> has_console_attached headless_run_end = False
   \<and> filter is_console_call (calls_since process_start headless_run_end)
       = [Call_AttachConsole_parent]"
proof -
  have absent: "getenv headless_host ''SHELL'' = None"
    by (simp add: headless_host_def console_host_def demo_host_def)
  then have h: "\<not> AttachConsole_ATTACH_PARENT_PROCESS headless_host
      \<or> getenv headless_host ''SHELL'' = None"
    by simp
  have on: "enable_console (cvars console_parsed)"
    by (simp add: console_parsed_def)
  from AttachConsole_headless_fallback [OF h, of process_start parsing_entry]
    headless_parse on headless_run
  have "has_console_attached (AttachConsole headless_host process_start) = False
      \<and> calls_since process_start (AttachConsole headless_host process_start)
          = [Call_AttachConsole_parent]
      \<and> has_console_attached headless_run_end = False
      \<and> filter is_console_call (calls_since process_start headless_run_end)
          = [Call_AttachConsole_parent]"
    by auto
  then show ?thesis
    using absent headless_parse on headless_run by simp
qed

subsection \<open>C3: the console flag when the console is not enabled\<close>

text \<open>
  C3, as stated, fails: line 37 initialises \<open>has_console_attached_\<close> to true, and a run
  with \<open>enable_console\<close> at its default never writes it, so \<open>has_console_attached()\<close>
  is true, not false, when \<open>Main\<close> returns.
\<close>

theorem console_flag_counterexample:
  "Main demo_host transparent_entry process_start = Inr (3, demo_run_end)
   \<and> enable_console (cvars demo_run_end) = False
   \<and> has_console_attached process_start = True
   \<and> has_console_attached demo_run_end = True"
  using demo_run by (simp add: demo_run_end_def process_start_def has_console_attached_def)

text \<open>
  C3, amended. If \<open>enable_console\<close> is false, \<open>Main\<close> makes no console call and does
  not write the console flag: \<open>has_console_attached()\<close> keeps the value it had when
  \<open>Main\<close> started, whatever the launch environment, and in a fresh process that value
  is the initialiser's true.
\<close>

theorem console_flag_kept_without_opt_in:
  assumes "Main h e s = Inr (rc, s')"
    and "\<not> enable_console (cvars s')"
  shows "has_console_attached s' = has_console_attached s
       \<and> filter is_console_call (calls_since s s') = []
       \<and> has_console_attached process_start = True"
proof (rule Main_Inr_cases [OF assms(1)])
  fix args
  assume p: "parse_launch_arguments h e [] s = Inr (False, args, s')"
  obtain ms where ms: "calls s' = calls s @ ms" "list_all is_marshalling_call ms"
    using parse_launch_arguments_frame(2) [OF p] by blast
  show ?thesis
    using parse_launch_arguments_frame(1) [OF p]
    by (simp add: calls_since_append [OF ms(1)] filter_none [OF ms(2)] call_kinds_disjoint
          has_console_attached_def process_start_def)
next
  fix args s1
  assume p: "parse_launch_arguments h e [] s = Inr (True, args, s1)"
  obtain ms where ms: "calls s1 = calls s @ ms" "list_all is_marshalling_call ms"
    using parse_launch_arguments_frame(2) [OF p] by blast
  obtain s'' where m: "Main h e s = Inr (if cpu_has_tAVX h then entry_point e args else - 1, s'')"
    "calls s'' =
       calls s1 @ (if enable_console (cvars s1) then console_requests h else []) @
       [Call_CoInitializeEx, Call_InitializeLogging (name e)] @
       (if cpu_has_tAVX h
        then Call_XELOGI (build_banner h) #
             (if win32_high_freq (cvars s1) then timer_requests h else []) @
             [Call_entry_point args, Call_ShutdownLogging]
        else [Call_FatalError avx_message])"
    "cvars s'' = cvars s1"
    "has_console_attached_var s'' =
       (if enable_console (cvars s1)
        then AttachConsole_ATTACH_PARENT_PROCESS h \<and> has_shell_environment_variable h
        else has_console_attached_var s1)"
    using Main_parsed [OF p] by blast
  have same: "s'' = s'"
    using m(1) assms(1) by simp
  have off: "\<not> enable_console (cvars s1)"
    using assms(2) m(3) same by simp
  have c: "calls s' = calls s @ (ms @
       [Call_CoInitializeEx, Call_InitializeLogging (name e)] @
       (if cpu_has_tAVX h
        then Call_XELOGI (build_banner h) #
             (if win32_high_freq (cvars s1) then timer_requests h else []) @
             [Call_entry_point args, Call_ShutdownLogging]
        else [Call_FatalError avx_message]))"
    using m(2) ms(1) off same by simp
  show ?thesis
    using m(4) off same parse_launch_arguments_frame(1) [OF p]
    by (simp add: calls_since_append [OF c] filter_none [OF ms(2)] call_kinds_disjoint
          filter_timer_requests has_console_attached_def process_start_def)
qed

theorem console_flag_kept_without_opt_in_witness:
  "Main demo_host transparent_entry process_start = Inr (3, demo_run_end)
   \<and> enable_console (cvars demo_run_end) = False
   \<and> has_console_attached demo_run_end = has_console_attached process_start
   \<and> filter is_console_call (calls_since process_start demo_run_end) = []"
proof -
  have off: "\<not> enable_console (cvars demo_run_end)"
    by (simp add: demo_run_end_def)
  from console_flag_kept_without_opt_in [OF demo_run off] off demo_run
  show ?thesis by simp
qed

subsection \<open>C9: timer resolution\<close>

text \<open>
  C9. \<open>win32_high_freq\<close> is true by default. \<open>RequestHighPerformance\<close> returns the
  process unchanged when either ntdll lookup gives a null pointer; with both functions
  present (and \<open>XE_PLATFORM_WIN32\<close> set, as it is for this file) it calls
  \<open>NtQueryTimerResolution\<close> and then \<open>NtSetTimerResolution\<close> with the maximum
  resolution the query stored and \<open>TRUE\<close>. Either way it is a total function on the
  process state: nothing propagates. In \<open>Main\<close> the timer calls appear only when
  \<open>win32_high_freq\<close> is set, and they do appear on every path that reaches the entry
  point with the option set.
\<close>

theorem timer_resolution_negotiation:
  "win32_high_freq DEFINE_bool_defaults
   \<and> (GetProcAddress_NtQueryTimerResolution h = None \<or> \<not> GetProcAddress_NtSetTimerResolution h
        \<longrightarrow> RequestHighPerformance h s = s)
   \<and> (XE_PLATFORM_WIN32 h
        \<and> GetProcAddress_NtQueryTimerResolution h
            = Some (minimum_resolution, maximum_resolution, current_resolution)
        \<and> GetProcAddress_NtSetTimerResolution h
        \<longrightarrow> RequestHighPerformance h s
            = s\<lparr>calls := calls s @ [Call_NtQueryTimerResolution,
                                      Call_NtSetTimerResolution maximum_resolution True]\<rparr>)
   \<and> (Main h e s = Inr (rc, s') \<and> filter is_timer_call (calls_since s s') \<noteq> []
        \<longrightarrow> win32_high_freq (cvars s'))
   \<and> (parse_launch_arguments h e [] s = Inr (True, args, s1) \<and> cpu_has_tAVX h
        \<and> win32_high_freq (cvars s1)
        \<longrightarrow> (\<exists>s''. Main h e s = Inr (entry_point e args, s'')
               \<and> filter is_timer_call (calls_since s s'') = timer_requests h))"
proof (intro conjI impI)
  show "win32_high_freq DEFINE_bool_defaults"
    by (simp add: DEFINE_bool_defaults_def)
next
  assume "GetProcAddress_NtQueryTimerResolution h = None \<or> \<not> GetProcAddress_NtSetTimerResolution h"
  then show "RequestHighPerformance h s = s"
    by (auto simp: RequestHighPerformance_def split: option.split prod.split)
next
  assume "XE_PLATFORM_WIN32 h
        \<and> GetProcAddress_NtQueryTimerResolution h
            = Some (minimum_resolution, maximum_resolution, current_resolution)
        \<and> GetProcAddress_NtSetTimerResolution h"
  then show "RequestHighPerformance h s
            = s\<lparr>calls := calls s @ [Call_NtQueryTimerResolution,
                                      Call_NtSetTimerResolution maximum_resolution True]\<rparr>"
    by (simp add: RequestHighPerformance_def do_call_def)
next
  assume a: "Main h e s = Inr (rc, s') \<and> filter is_timer_call (calls_since s s') \<noteq> []"
  then have run: "Main h e s = Inr (rc, s')" and some: "filter is_timer_call (calls_since s s') \<noteq> []"
    by simp_all
  show "win32_high_freq (cvars s')"
  proof (rule Main_Inr_cases [OF run])
    fix args0
    assume p: "parse_launch_arguments h e [] s = Inr (False, args0, s')"
    obtain ms where ms: "calls s' = calls s @ ms" "list_all is_marshalling_call ms"
      using parse_launch_arguments_frame(2) [OF p] by blast
    have "filter is_timer_call (calls_since s s') = []"
      by (simp add: calls_since_append [OF ms(1)] filter_none [OF ms(2)] call_kinds_disjoint)
    then show ?thesis using some by simp
  next
    fix args0 s0
    assume p: "parse_launch_arguments h e [] s = Inr (True, args0, s0)"
    obtain ms where ms: "calls s0 = calls s @ ms" "list_all is_marshalling_call ms"
      using parse_launch_arguments_frame(2) [OF p] by blast
    let ?rest = "(if enable_console (cvars s0) then console_requests h else []) @
         [Call_CoInitializeEx, Call_InitializeLogging (name e)] @
         (if cpu_has_tAVX h
          then Call_XELOGI (build_banner h) #
               (if win32_high_freq (cvars s0) then timer_requests h else []) @
               [Call_entry_point args0, Call_ShutdownLogging]
          else [Call_FatalError avx_message])"
    obtain s2 where m: "Main h e s = Inr (if cpu_has_tAVX h then entry_point e args0 else - 1, s2)"
      "calls s2 = calls s0 @ ?rest" "cvars s2 = cvars s0"
      using Main_parsed [OF p] by blast
    have same: "s2 = s'"
      using m(1) run by simp
    have c: "calls s' = calls s @ (ms @ ?rest)"
      using m(2) ms(1) same by simp
    show ?thesis
    proof (rule ccontr)
      assume "\<not> win32_high_freq (cvars s')"
      then have off: "\<not> win32_high_freq (cvars s0)"
        using m(3) same by simp
      have "filter is_timer_call (calls_since s s') = []"
        using off
        by (simp add: calls_since_append [OF c] filter_none [OF ms(2)] call_kinds_disjoint
              filter_console_requests)
      then show False using some by simp
    qed
  qed
next
  assume a: "parse_launch_arguments h e [] s = Inr (True, args, s1) \<and> cpu_has_tAVX h
        \<and> win32_high_freq (cvars s1)"
  then have p: "parse_launch_arguments h e [] s = Inr (True, args, s1)"
    and avx: "cpu_has_tAVX h" and on: "win32_high_freq (cvars s1)"
    by simp_all
  obtain ms where ms: "calls s1 = calls s @ ms" "list_all is_marshalling_call ms"
    using parse_launch_arguments_frame(2) [OF p] by blast
  let ?rest = "(if enable_console (cvars s1) then console_requests h else []) @
       [Call_CoInitializeEx, Call_InitializeLogging (name e)] @
       Call_XELOGI (build_banner h) # timer_requests h @
       [Call_entry_point args, Call_ShutdownLogging]"
  obtain s2 where m: "Main h e s = Inr (entry_point e args, s2)" "calls s2 = calls s1 @ ?rest"
    using Main_parsed [OF p] avx on by auto
  have c: "calls s2 = calls s @ (ms @ ?rest)"
    using m(2) ms(1) by simp
  have all_timer: "filter is_timer_call (timer_requests h) = timer_requests h"
    using timer_requests_kind [of h] by (simp add: list_all_iff)
  have "filter is_timer_call (calls_since s s2) = timer_requests h"
    by (simp add: calls_since_append [OF c] filter_none [OF ms(2)] call_kinds_disjoint
          filter_console_requests all_timer)
  then show "\<exists>s''. Main h e s = Inr (entry_point e args, s'')
               \<and> filter is_timer_call (calls_since s s'') = timer_requests h"
    using m(1) by blast
qed

theorem timer_resolution_negotiation_witness:
  "win32_high_freq DEFINE_bool_defaults
   \<and> RequestHighPerformance (demo_host\<lparr>GetProcAddress_NtSetTimerResolution := False\<rparr>)
        process_start = process_start
   \<and> RequestHighPerformance demo_host process_start
       = process_start\<lparr>calls := [Call_NtQueryTimerResolution, Call_NtSetTimerResolution 5000 True]\<rparr>
   \<and> Main demo_host transparent_entry process_start = Inr (3, demo_run_end)
   \<and> filter is_timer_call (calls_since process_start demo_run_end)
       = [Call_NtQueryTimerResolution, Call_NtSetTimerResolution 5000 True]
   \<and> win32_high_freq (cvars demo_run_end)"
proof -
  have off: "GetProcAddress_NtQueryTimerResolution
               (demo_host\<lparr>GetProcAddress_NtSetTimerResolution := False\<rparr>) = None
      \<or> \<not> GetProcAddress_NtSetTimerResolution
               (demo_host\<lparr>GetProcAddress_NtSetTimerResolution := False\<rparr>)"
    by simp
  have on: "XE_PLATFORM_WIN32 demo_host
      \<and> GetProcAddress_NtQueryTimerResolution demo_host = Some (156250, 5000, 156250)
      \<and> GetProcAddress_NtSetTimerResolution demo_host"
    by (simp add: demo_host_def)
  have some: "filter is_timer_call (calls_since process_start demo_run_end) \<noteq> []"
    by (simp add: demo_run_end_def process_start_def calls_since_def)
  have 1: "RequestHighPerformance (demo_host\<lparr>GetProcAddress_NtSetTimerResolution := False\<rparr>)
        process_start = process_start"
    using timer_resolution_negotiation
      [of "demo_host\<lparr>GetProcAddress_NtSetTimerResolution := False\<rparr>" process_start] off
    by blast
  have 2: "RequestHighPerformance demo_host process_start
       = process_start\<lparr>calls := calls process_start @
           [Call_NtQueryTimerResolution, Call_NtSetTimerResolution 5000 True]\<rparr>"
    using timer_resolution_negotiation [of demo_host process_start 156250 5000 156250] on
    by blast
  have 3: "win32_high_freq (cvars demo_run_end)"
    using timer_resolution_negotiation
      [of demo_host process_start _ _ _ transparent_entry 3 demo_run_end] demo_run some
    by blast
  show ?thesis
    using 1 2 3 demo_run
    by (simp add: DEFINE_bool_defaults_def demo_run_end_def process_start_def calls_since_def)
qed

subsection \<open>C10: the positional optionals\<close>

text \<open>
  C10. With \<open>transparent_options\<close> false, \<open>parse_launch_arguments\<close> reaches line 122
  whenever the OS returned a token array it could convert, and there it takes
  \<open>value()\<close> of both optionals: if either is empty the process aborts with
  \<open>bad_optional_access\<close>, so \<open>parse_launch_arguments\<close> returns true, and \<open>Main\<close>
  returns at all after a non-null token array, only if both are populated. With
  \<open>transparent_options\<close> true the optionals are never read: the results do not depend
  on them, the option parser is not called and the configuration is not changed.
\<close>

theorem positional_optionals_dereferenced:
  "(\<not> transparent_options e \<and> parse_launch_arguments h e a s = Inr (True, args, s1)
      \<longrightarrow> positional_usage e \<noteq> None \<and> positional_options e \<noteq> None)
   \<and> (\<not> transparent_options e \<and> CommandLineToArgvW h \<noteq> None \<and> Main h e s = Inr (rc, s')
      \<longrightarrow> positional_usage e \<noteq> None \<and> positional_options e \<noteq> None)
   \<and> (\<not> transparent_options e \<and> CommandLineToArgvW h = Some (wargc, wargv) \<and> 0 \<le> wargc
      \<and> convert_loop h wargv [0 ..< nat wargc] = Inr argv
      \<and> (positional_usage e = None \<or> positional_options e = None)
      \<longrightarrow> parse_launch_arguments h e a s = Inl bad_optional_access
        \<and> Main h e s = Inl bad_optional_access)
   \<and> (transparent_options e
      \<longrightarrow> parse_launch_arguments h (e\<lparr>positional_usage := u, positional_options := p\<rparr>) a s
          = parse_launch_arguments h e a s
        \<and> Main h (e\<lparr>positional_usage := u, positional_options := p\<rparr>) s = Main h e s)
   \<and> (transparent_options e \<and> parse_launch_arguments h e a s = Inr (True, args, s1)
      \<longrightarrow> cvars s1 = cvars s \<and> calls_since s s1 = [Call_LocalFree])"
proof (intro conjI impI)
  assume "\<not> transparent_options e \<and> parse_launch_arguments h e a s = Inr (True, args, s1)"
  then show "positional_usage e \<noteq> None" and "positional_options e \<noteq> None"
    by (auto simp: parse_launch_arguments_def Let_def
             split: option.splits prod.splits if_splits sum.splits)
next
  assume a: "\<not> transparent_options e \<and> CommandLineToArgvW h \<noteq> None \<and> Main h e s = Inr (rc, s')"
  then obtain parsed args0 s0 where p: "parse_launch_arguments h e [] s = Inr (parsed, args0, s0)"
    by (auto simp: Main_def split: sum.splits)
  have "parsed"
    using a p parse_launch_arguments_parsed [of h _ _ e "[]" s parsed args0 s0] by auto
  then show "positional_usage e \<noteq> None" and "positional_options e \<noteq> None"
    using a p
    by (auto simp: parse_launch_arguments_def Let_def
             split: option.splits prod.splits if_splits sum.splits)
next
  assume a: "\<not> transparent_options e \<and> CommandLineToArgvW h = Some (wargc, wargv) \<and> 0 \<le> wargc
      \<and> convert_loop h wargv [0 ..< nat wargc] = Inr argv
      \<and> (positional_usage e = None \<or> positional_options e = None)"
  have parse: "parse_launch_arguments h e a' s = Inl bad_optional_access" for a'
    using a by (auto simp: parse_launch_arguments_def Let_def split: option.splits)
  show "parse_launch_arguments h e a s = Inl bad_optional_access"
    by (rule parse)
  show "Main h e s = Inl bad_optional_access"
    by (simp add: Main_def parse)
next
  assume t: "transparent_options e"
  have parse: "parse_launch_arguments h (e\<lparr>positional_usage := u, positional_options := p\<rparr>) a' s
          = parse_launch_arguments h e a' s" for a'
    using t
    by (simp add: parse_launch_arguments_def Let_def split: option.split prod.split sum.split)
  show "parse_launch_arguments h (e\<lparr>positional_usage := u, positional_options := p\<rparr>) a s
          = parse_launch_arguments h e a s"
    by (rule parse)
  show "Main h (e\<lparr>positional_usage := u, positional_options := p\<rparr>) s = Main h e s"
    by (simp add: Main_def parse Let_def split: sum.split prod.split)
next
  assume "transparent_options e \<and> parse_launch_arguments h e a s = Inr (True, args, s1)"
  then show "cvars s1 = cvars s" and "calls_since s s1 = [Call_LocalFree]"
    by (auto simp: parse_launch_arguments_def Let_def calls_since_def
             split: option.splits prod.splits if_splits sum.splits)
qed

theorem positional_optionals_dereferenced_witness:
  "transparent_options parsing_entry = False
   \<and> parse_launch_arguments demo_host (parsing_entry\<lparr>positional_options := None\<rparr>) []
        process_start = Inl bad_optional_access
   \<and> Main demo_host (parsing_entry\<lparr>positional_options := None\<rparr>) process_start
       = Inl bad_optional_access
   \<and> transparent_options transparent_entry
   \<and> positional_usage transparent_entry = None
   \<and> positional_options transparent_entry = None
   \<and> Main demo_host transparent_entry process_start = Inr (3, demo_run_end)
   \<and> parse_launch_arguments demo_host transparent_entry [] process_start
       = Inr (True, demo_args, do_call Call_LocalFree process_start)
   \<and> cvars (do_call Call_LocalFree process_start) = cvars process_start
   \<and> calls_since process_start (do_call Call_LocalFree process_start) = [Call_LocalFree]"
proof -
  let ?e = "parsing_entry\<lparr>positional_options := None\<rparr>"
  let ?argv = "[narrow ''prog.exe'' @ [0], narrow ''--flag'' @ [0], narrow ''value'' @ [0]]"
  have pre: "\<not> transparent_options ?e
      \<and> CommandLineToArgvW demo_host = Some (3, demo_tokens) \<and> (0::int) \<le> 3
      \<and> convert_loop demo_host demo_tokens [0 ..< nat 3] = Inr ?argv
      \<and> (positional_usage ?e = None \<or> positional_options ?e = None)"
    by (simp add: run_defs)
  have abort: "parse_launch_arguments demo_host ?e [] process_start = Inl bad_optional_access
      \<and> Main demo_host ?e process_start = Inl bad_optional_access"
    using positional_optionals_dereferenced
      [of ?e demo_host "[]" process_start _ _ _ _ 3 demo_tokens ?argv] pre
    by blast
  have t: "transparent_options transparent_entry"
    by (simp add: transparent_entry_def)
  have bypass: "cvars (do_call Call_LocalFree process_start) = cvars process_start
      \<and> calls_since process_start (do_call Call_LocalFree process_start) = [Call_LocalFree]"
    using positional_optionals_dereferenced
      [of transparent_entry demo_host "[]" process_start demo_args
          "do_call Call_LocalFree process_start"] t demo_parse
    by blast
  show ?thesis
    using abort bypass t demo_run demo_parse
    by (simp add: parsing_entry_def transparent_entry_def)
qed

subsection \<open>Lemmas on the conversion\<close>











subsection \<open>C5: the token sequence\<close>




subsection \<open>C8: measure, then convert\<close>




end
